theory Spec2Isabelle
  imports Main "HOL-Library.Word" "HOL-Library.Signed_Division"
begin

section \<open>Go values\<close>

text \<open>
  A Go \<^verbatim>\<open>error\<close> is \<open>None\<close> for \<^verbatim>\<open>nil\<close> and \<open>Some msg\<close> for an error whose
  \<^verbatim>\<open>Error()\<close> text is \<open>msg\<close>. \<^verbatim>\<open>uint64\<close> is a 64-bit word; \<^verbatim>\<open>int\<close> is taken at its
  width on 64-bit targets, so \<open>+\<close> and \<open>*\<close> wrap around as Go's do.
\<close>

type_synonym go_error = "string option"
type_synonym uint64 = "64 word"
type_synonym go_int = "64 word"

section \<open>The msgpack server codec (src/msgpack/server.go)\<close>

subsection \<open>Headers\<close>

text \<open>
  Modelled from the spec: the declarations of \<^verbatim>\<open>birpc.Request\<close> and \<^verbatim>\<open>birpc.Response\<close>
  are not among the sources. The spec gives the request header as service method and
  sequence number and the response header as sequence number and error text; server.go
  reads and writes exactly the fields below. The functions on them are stated over the
  record schemes, so whatever further field the declarations have is carried along
  untouched.
\<close>

record birpc_Request =
  req_ServiceMethod :: string
  req_Seq :: uint64

record birpc_Response =
  res_Seq :: uint64
  res_Error :: string

text \<open>
  \<^verbatim>\<open>rpc.Request\<close> and \<^verbatim>\<open>rpc.Response\<close> of Go's net/rpc, the headers the wrapped
  codec works on (their unexported free-list link is left out).
\<close>

record rpc_Request =
  rpc_req_ServiceMethod :: string
  rpc_req_Seq :: uint64

record rpc_Response =
  rpc_res_ServiceMethod :: string
  rpc_res_Seq :: uint64
  rpc_res_Error :: string

text \<open>The zero value \<^verbatim>\<open>&rpc.Request{}\<close>.\<close>

definition rpc_Request_zero :: rpc_Request where
  "rpc_Request_zero = \<lparr>rpc_req_ServiceMethod = [], rpc_req_Seq = 0\<rparr>"

subsection \<open>The wrapped codec\<close>

text \<open>
  \<^verbatim>\<open>rpc.ServerCodec\<close> is an interface, implemented outside this repository; it is a
  parameter here. \<open>'st\<close> is the state of the connection the codec reads from and writes
  to, \<open>'slot\<close> the value a body is decoded into, \<open>'body\<close> a body to be written. A method
  taking a pointer returns the pointee as it leaves it.
\<close>

record ('st, 'slot, 'body) rpc_ServerCodec =
  rpc_ReadRequestHeader :: "rpc_Request \<Rightarrow> 'st \<Rightarrow> go_error \<times> rpc_Request \<times> 'st"
  rpc_ReadRequestBody :: "'slot \<Rightarrow> 'st \<Rightarrow> go_error \<times> 'slot \<times> 'st"
  rpc_WriteResponse :: "rpc_Response \<Rightarrow> 'body \<Rightarrow> 'st \<Rightarrow> go_error \<times> 'st"

text \<open>
  \<^verbatim>\<open>msgpackServerCodec\<close>: the connection, of which only \<^verbatim>\<open>Close\<close> is called, and the
  wrapped codec.
\<close>

record ('st, 'slot, 'body) msgpackServerCodec =
  conn_Close :: "'st \<Rightarrow> go_error \<times> 'st"
  codec :: "('st, 'slot, 'body) rpc_ServerCodec"

subsection \<open>Conversions\<close>

definition convertFromRPCRequest ::
  "rpc_Request \<Rightarrow> 'a birpc_Request_scheme \<Rightarrow> 'a birpc_Request_scheme" where
  "convertFromRPCRequest originReq req =
     req\<lparr>req_ServiceMethod := rpc_req_ServiceMethod originReq,
         req_Seq := rpc_req_Seq originReq\<rparr>"

text \<open>
  The composite literal sets \<^verbatim>\<open>Seq\<close> and \<^verbatim>\<open>ServiceMethod\<close>; \<^verbatim>\<open>Error\<close> keeps its zero
  value, the empty string.
\<close>

definition convertToRPCResponse :: "'a birpc_Response_scheme \<Rightarrow> rpc_Response" where
  "convertToRPCResponse res =
     \<lparr>rpc_res_ServiceMethod = res_Error res,
      rpc_res_Seq = res_Seq res,
      rpc_res_Error = []\<rparr>"

subsection \<open>Methods\<close>

definition ReadRequestHeader ::
  "('st, 'slot, 'body) msgpackServerCodec \<Rightarrow> 'a birpc_Request_scheme \<Rightarrow> 'st
     \<Rightarrow> go_error \<times> 'a birpc_Request_scheme \<times> 'st" where
  "ReadRequestHeader c r s =
     (case rpc_ReadRequestHeader (codec c) rpc_Request_zero s of
        (err, ugorjiRequest, s') \<Rightarrow>
          if err \<noteq> None then (err, r, s')
          else (err, convertFromRPCRequest ugorjiRequest r, s'))"

definition ReadRequestBody ::
  "('st, 'slot, 'body) msgpackServerCodec \<Rightarrow> 'slot \<Rightarrow> 'st \<Rightarrow> go_error \<times> 'slot \<times> 'st" where
  "ReadRequestBody c body s = rpc_ReadRequestBody (codec c) body s"

definition WriteResponse ::
  "('st, 'slot, 'body) msgpackServerCodec \<Rightarrow> 'a birpc_Response_scheme \<Rightarrow> 'body \<Rightarrow> 'st
     \<Rightarrow> go_error \<times> 'st" where
  "WriteResponse c r body s =
     (let ugorjiResponse = convertToRPCResponse r
      in rpc_WriteResponse (codec c) ugorjiResponse body s)"

definition Close :: "('st, 'slot, 'body) msgpackServerCodec \<Rightarrow> 'st \<Rightarrow> go_error \<times> 'st" where
  "Close c s = conn_Close c s"

section \<open>The registered handlers (src/jsonrpc/all_test.go)\<close>

text \<open>
  A handler is called with the argument and a pointer to the reply slot; the model takes
  the slot's content and returns the error together with the slot's content afterwards.
  The receiver and the context are used by none of the handlers below and are left out.
  A handler that can panic returns an \<open>outcome\<close>.
\<close>

datatype 'a outcome = Returned 'a | Panicked string

record Args =
  A :: go_int
  B :: go_int

record Reply =
  C :: go_int

text \<open>
  Go's \<^verbatim>\<open>/\<close> on \<^verbatim>\<open>int\<close> with a non-zero divisor: the quotient truncated towards zero,
  taken in two's complement (the most negative value divided by \<open>-1\<close> is itself).
\<close>

definition go_quo :: "go_int \<Rightarrow> go_int \<Rightarrow> go_int" where
  "go_quo x y = word_of_int (sint x sdiv sint y)"

definition Arith_Add :: "Args \<Rightarrow> Reply \<Rightarrow> go_error \<times> Reply" where
  "Arith_Add args reply = (None, reply\<lparr>C := A args + B args\<rparr>)"

definition Arith_Mul :: "Args \<Rightarrow> Reply \<Rightarrow> go_error \<times> Reply" where
  "Arith_Mul args reply = (None, reply\<lparr>C := A args * B args\<rparr>)"

definition Arith_Div :: "Args \<Rightarrow> Reply \<Rightarrow> go_error \<times> Reply" where
  "Arith_Div args reply =
     (if B args = 0 then (Some ''divide by zero'', reply)
      else (None, reply\<lparr>C := go_quo (A args) (B args)\<rparr>))"

definition Arith_Error :: "Args \<Rightarrow> Reply \<Rightarrow> (go_error \<times> Reply) outcome" where
  "Arith_Error args reply = Panicked ''ERROR''"



text \<open>A \<^verbatim>\<open>[]int\<close> is the list of its elements; \<^verbatim>\<open>append\<close> on a nil slice gives one element.\<close>

definition BuiltinTypes_Slice :: "go_int \<Rightarrow> go_int list \<Rightarrow> go_error \<times> go_int list" where
  "BuiltinTypes_Slice i reply = (None, reply @ [i])"


section \<open>The server dispatcher\<close>

text \<open>
  Modelled from the spec: the dispatcher (the server's registry, its serve loop and the
  invocation of a handler) is not among the sources; only its tests are. What follows
  is the spec's sections 4.1, 4.3 and 7, sentence by sentence.
\<close>

subsection \<open>Codec contract, inbound side\<close>

text \<open>
  Modelled from the spec: ``read a request header; read the request body into a freshly
  allocated slot, or discard it; write a response (header+body)''. A header read either
  fails (a protocol error, \<open>Inl\<close>) or yields the header. Reading a body tells a
  malformed body (a protocol error) from an argument that does not decode, as the
  error taxonomy does. A response is written with its body, or with none.
\<close>

datatype 'arg body_read = Decoded 'arg | ArgDecodeError string | ProtocolError string

record ('st, 'arg, 'reply) ServerCodec =
  readRequestHeader :: "'st \<Rightarrow> (string + birpc_Request) \<times> 'st"
  readRequestBody :: "'st \<Rightarrow> 'arg body_read \<times> 'st"
  discardRequestBody :: "'st \<Rightarrow> go_error \<times> 'st"
  writeResponse :: "birpc_Response \<Rightarrow> 'reply option \<Rightarrow> 'st \<Rightarrow> go_error \<times> 'st"

subsection \<open>Registry and invocation\<close>

text \<open>
  Modelled from the spec: the registry maps the exact string ``Service.Method'' to an
  invoker that allocates the reply value and performs the call. An invocation
  ``recovers from any abnormal handler termination and converts it into an error
  response carrying the failure's description, and writes {seq, error-or-empty} plus
  the reply body (on success) or no body (on error)''.
\<close>

type_synonym ('arg, 'reply) invoker = "'arg \<Rightarrow> (go_error \<times> 'reply) outcome"
type_synonym ('arg, 'reply) registry = "string \<rightharpoonup> ('arg, 'reply) invoker"

definition invoke ::
  "('arg, 'reply) invoker \<Rightarrow> uint64 \<Rightarrow> 'arg \<Rightarrow> birpc_Response \<times> 'reply option" where
  "invoke h seq argv =
     (case h argv of
        Panicked d \<Rightarrow> (\<lparr>res_Seq = seq, res_Error = d\<rparr>, None)
      | Returned (Some e, reply) \<Rightarrow> (\<lparr>res_Seq = seq, res_Error = e\<rparr>, None)
      | Returned (None, reply) \<Rightarrow> (\<lparr>res_Seq = seq, res_Error = []\<rparr>, Some reply))"

subsection \<open>Serve loop\<close>

text \<open>
  Modelled from the spec: what the serve loop does with one request. It ``reads a
  request header. A header/body decode failure is a terminating protocol error: the
  loop returns rather than spin. A successfully parsed header for an unknown method is
  recoverable: the body is discarded, a synthetic error response ("can't find method
  ...") is written, and the loop continues. For a known method, the argument body is
  decoded into a freshly allocated value; the invocation is dispatched as an
  independent concurrent unit of work''; an argument that does not decode is answered
  with an error response and the loop continues. The result says whether the loop
  goes on, gives the connection as the reads (and the loop's own error response)
  leave it, and the invocation that was dispatched, if any, as the response it will
  write when it completes. The outcome of a write is not looked at.
\<close>

definition read_request ::
  "('st, 'arg, 'reply) ServerCodec \<Rightarrow> ('arg, 'reply) registry \<Rightarrow> 'st
     \<Rightarrow> bool \<times> 'st \<times> (birpc_Response \<times> 'reply option) option" where
  "read_request c reg s =
     (case readRequestHeader c s of
        (Inl e, s1) \<Rightarrow> (False, s1, None)
      | (Inr req, s1) \<Rightarrow>
          (case reg (req_ServiceMethod req) of
             None \<Rightarrow>
               (case discardRequestBody c s1 of
                  (Some e, s2) \<Rightarrow> (False, s2, None)
                | (None, s2) \<Rightarrow>
                    (True, snd (writeResponse c
                       \<lparr>res_Seq = req_Seq req,
                        res_Error = ''can't find method '' @ req_ServiceMethod req\<rparr>
                       None s2), None))
           | Some h \<Rightarrow>
               (case readRequestBody c s1 of
                  (ProtocolError e, s2) \<Rightarrow> (False, s2, None)
                | (ArgDecodeError e, s2) \<Rightarrow>
                    (True, snd (writeResponse c
                       \<lparr>res_Seq = req_Seq req, res_Error = e\<rparr> None s2), None)
                | (Decoded argv, s2) \<Rightarrow>
                    (True, s2, Some (invoke h (req_Seq req) argv)))))"

text \<open>
  Modelled from the spec: the server's side of one connection is the connection and
  the invocations in flight, those dispatched and not yet completed, each with the
  response it will write. A turn of the loop takes one request and puts the invocation
  it dispatches in flight. An invocation in flight completes by writing its response;
  ``response write ordering across concurrently completing invocations is
  unconstrained'', so any of them may be the next to complete.
\<close>

record ('st, 'reply) server =
  conn :: 'st
  inflight :: "(birpc_Response \<times> 'reply option) list"

definition turn ::
  "('st, 'arg, 'reply) ServerCodec \<Rightarrow> ('arg, 'reply) registry \<Rightarrow> ('st, 'reply) server
     \<Rightarrow> bool \<times> ('st, 'reply) server" where
  "turn c reg sv =
     (case read_request c reg (conn sv) of
        (keepReading, s', dispatched) \<Rightarrow>
          (keepReading,
           \<lparr>conn = s',
            inflight = inflight sv @ (case dispatched of None \<Rightarrow> [] | Some x \<Rightarrow> [x])\<rparr>))"

definition complete ::
  "('st, 'arg, 'reply) ServerCodec \<Rightarrow> nat \<Rightarrow> ('st, 'reply) server \<Rightarrow> ('st, 'reply) server" where
  "complete c k sv =
     (if k < length (inflight sv) then
        (case inflight sv ! k of
           (res, body) \<Rightarrow>
             \<lparr>conn = snd (writeResponse c res body (conn sv)),
              inflight = take k (inflight sv) @ drop (Suc k) (inflight sv)\<rparr>)
      else sv)"

fun completes ::
  "('st, 'arg, 'reply) ServerCodec \<Rightarrow> nat list \<Rightarrow> ('st, 'reply) server \<Rightarrow> ('st, 'reply) server" where
  "completes c [] sv = sv"
| "completes c (k # ks) sv = completes c ks (complete c k sv)"

text \<open>
  Modelled from the spec: the serve loop ``repeatedly reads a request header'' and
  goes through a turn until one ends it. Which invocations complete while the loop
  runs is not the loop's choice: \<open>sched\<close> lists, turn by turn, the invocations in
  flight (by position) that complete after the turn and before the next header is
  read. The loop may run forever (a connection that never fails to deliver requests),
  so it returns an option: \<open>Some\<close> the connection and the invocations still in flight
  when it returns, \<open>None\<close> when it does not. A turn's reads are taken as one step.
\<close>

partial_function (option) serve_loop ::
  "('st, 'arg, 'reply) ServerCodec \<Rightarrow> ('arg, 'reply) registry \<Rightarrow> (nat \<Rightarrow> nat list)
     \<Rightarrow> ('st, 'reply) server \<Rightarrow> ('st, 'reply) server option" where
  "serve_loop c reg sched sv =
     (case turn c reg sv of
        (keepReading, sv') \<Rightarrow>
          if keepReading
          then serve_loop c reg (\<lambda>i. sched (Suc i)) (completes c (sched 0) sv')
          else Some sv')"

text \<open>
  Two schedules: every invocation completes before the next header is read (started
  with none in flight, a turn leaves at most one in flight, at position 0), and no
  invocation completes while the loop runs.
\<close>

definition each_in_turn :: "nat \<Rightarrow> nat list" where
  "each_in_turn i = [0]"

definition none_completes :: "nat \<Rightarrow> nat list" where
  "none_completes i = []"

text \<open>The server's side of the connection after \<open>n\<close> turns of the loop.\<close>

fun after_turns ::
  "('st, 'arg, 'reply) ServerCodec \<Rightarrow> ('arg, 'reply) registry \<Rightarrow> (nat \<Rightarrow> nat list) \<Rightarrow> nat
     \<Rightarrow> ('st, 'reply) server \<Rightarrow> ('st, 'reply) server" where
  "after_turns c reg sched 0 sv = sv"
| "after_turns c reg sched (Suc n) sv =
     after_turns c reg (\<lambda>i. sched (Suc i)) n (completes c (sched 0) (snd (turn c reg sv)))"

text \<open>
  Modelled from the spec: a protocol error is a ``malformed header/body''. Whether the
  next request on the connection fails to parse, and the state in which the failed
  read leaves the connection: the header does not parse, or the body is malformed
  (read for a known method, discarded for an unknown one).
\<close>

definition parse_failure ::
  "('st, 'arg, 'reply) ServerCodec \<Rightarrow> ('arg, 'reply) registry \<Rightarrow> 'st \<Rightarrow> 'st option" where
  "parse_failure c reg s =
     (case readRequestHeader c s of
        (Inl e, s1) \<Rightarrow> Some s1
      | (Inr req, s1) \<Rightarrow>
          (case reg (req_ServiceMethod req) of
             None \<Rightarrow>
               (case discardRequestBody c s1 of
                  (Some e, s2) \<Rightarrow> Some s2
                | (None, s2) \<Rightarrow> None)
           | Some h \<Rightarrow>
               (case readRequestBody c s1 of
                  (ProtocolError e, s2) \<Rightarrow> Some s2
                | (ArgDecodeError e, s2) \<Rightarrow> None
                | (Decoded argv, s2) \<Rightarrow> None)))"

subsection \<open>Registration\<close>

text \<open>
  Modelled from the spec: \<^verbatim>\<open>Register\<close> is not among the sources. It ``inspects the
  receiver's exposed operations; an eligible operation takes an optional Context plus
  one argument value and one reply-out value, and yields an error outcome;
  argument/reply types may be arbitrary semantic types including built-in containers.
  Registration fails if no eligible operations are found or the service name already
  exists.'' An operation is given by the types of its parameters and results as the
  source declares them; the reply-out value is the parameter passed by pointer. A
  method descriptor is the spec's: argument type, reply type, and whether the
  operation accepts a context.
\<close>

datatype go_type =
  TInt | TString | TError | TContext | TStruct string
  | TPointer go_type | TMap go_type go_type | TSlice go_type | TArray nat go_type










section \<open>Connections held in memory\<close>

text \<open>
  Two instances of the codec interfaces over lists, on which the functions above can
  be evaluated. The first is a wrapped codec: each entry of \<open>incoming\<close> is what one
  header read returns and leaves in the header it was given; \<open>written\<close> collects the
  headers and bodies handed to it.
\<close>

record 'body wire =
  incoming :: "(go_error \<times> rpc_Request) list"
  written :: "(rpc_Response \<times> 'body) list"

definition wire_codec :: "('body wire, 'slot, 'body) rpc_ServerCodec" where
  "wire_codec =
     \<lparr>rpc_ReadRequestHeader = (\<lambda>r s.
        case incoming s of
          [] \<Rightarrow> (Some ''EOF'', r, s)
        | (err, h) # rest \<Rightarrow> (err, h, s\<lparr>incoming := rest\<rparr>)),
      rpc_ReadRequestBody = (\<lambda>slot s. (None, slot, s)),
      rpc_WriteResponse = (\<lambda>r b s. (None, s\<lparr>written := written s @ [(r, b)]\<rparr>))\<rparr>"

definition wire_msgpack :: "('body wire, 'slot, 'body) msgpackServerCodec" where
  "wire_msgpack = \<lparr>conn_Close = (\<lambda>s. (None, s)), codec = wire_codec\<rparr>"

text \<open>
  The second is a codec of the dispatcher's contract: the inbox holds what the peer
  sent, a frame being either bytes that do not parse as a header or a header with what
  reading its body gives; the outbox collects the responses.
\<close>

datatype 'arg frame = Unparsable string | Frame birpc_Request "'arg body_read"

record ('arg, 'reply) pipe =
  inbox :: "'arg frame list"
  pending :: "'arg body_read option"
  outbox :: "(birpc_Response \<times> 'reply option) list"

definition pipe_codec :: "(('arg, 'reply) pipe, 'arg, 'reply) ServerCodec" where
  "pipe_codec =
     \<lparr>readRequestHeader = (\<lambda>s.
        case inbox s of
          [] \<Rightarrow> (Inl ''EOF'', s)
        | Unparsable e # rest \<Rightarrow> (Inl e, s\<lparr>inbox := rest\<rparr>)
        | Frame h b # rest \<Rightarrow> (Inr h, s\<lparr>inbox := rest, pending := Some b\<rparr>)),
      readRequestBody = (\<lambda>s.
        case pending s of
          None \<Rightarrow> (ProtocolError ''EOF'', s)
        | Some b \<Rightarrow> (b, s\<lparr>pending := None\<rparr>)),
      discardRequestBody = (\<lambda>s.
        case pending s of
          Some (ProtocolError e) \<Rightarrow> (Some e, s\<lparr>pending := None\<rparr>)
        | _ \<Rightarrow> (None, s\<lparr>pending := None\<rparr>)),
      writeResponse = (\<lambda>r b s. (None, s\<lparr>outbox := outbox s @ [(r, b)]\<rparr>))\<rparr>"

text \<open>
  Modelled from the spec: \<^verbatim>\<open>birpc.Register(new(Arith))\<close> in all\_test.go's \<^verbatim>\<open>init\<close>;
  \<^verbatim>\<open>Register\<close> itself is not among the sources. Each method of \<^verbatim>\<open>Arith\<close> is reached
  under ``Arith.'' and its name, and is called on a freshly allocated, zero reply.
\<close>

definition Arith_service :: "(Args, Reply) registry" where
  "Arith_service =
     [''Arith.Add'' \<mapsto> (\<lambda>args. Returned (Arith_Add args \<lparr>C = 0\<rparr>)),
      ''Arith.Mul'' \<mapsto> (\<lambda>args. Returned (Arith_Mul args \<lparr>C = 0\<rparr>)),
      ''Arith.Div'' \<mapsto> (\<lambda>args. Returned (Arith_Div args \<lparr>C = 0\<rparr>)),
      ''Arith.Error'' \<mapsto> (\<lambda>args. Arith_Error args \<lparr>C = 0\<rparr>)]"

section \<open>Properties of the msgpack server codec\<close>

text \<open>
  C3. Every response header handed to \<^verbatim>\<open>WriteResponse\<close> goes to the wrapped codec as
  the converted header, with the same body on the same connection, and the converted
  header has the sequence number of the input header.
\<close>

theorem WriteResponse_keeps_Seq:
  "WriteResponse c r body s = rpc_WriteResponse (codec c) (convertToRPCResponse r) body s
   \<and> rpc_res_Seq (convertToRPCResponse r) = res_Seq r"
  by (simp add: WriteResponse_def convertToRPCResponse_def)

text \<open>
  C1. An error response does not reach the wrapped codec as one. At the header with
  sequence number 1 and error text ``some error'', \<^verbatim>\<open>WriteResponse\<close> hands over a
  header whose \<^verbatim>\<open>Error\<close> is empty and whose \<^verbatim>\<open>ServiceMethod\<close> holds the text, together
  with the body it was given: the error field carries no error text, and the result
  is passed on as if the call had succeeded.
\<close>

theorem WriteResponse_loses_Error:
  "WriteResponse c \<lparr>res_Seq = 1, res_Error = ''some error''\<rparr> body s
     = rpc_WriteResponse (codec c)
         \<lparr>rpc_res_ServiceMethod = ''some error'', rpc_res_Seq = 1, rpc_res_Error = []\<rparr> body s
   \<and> WriteResponse wire_msgpack \<lparr>res_Seq = 1, res_Error = ''some error''\<rparr>
        ''the value we don't want to see'' \<lparr>incoming = [], written = []\<rparr>
     = (None, \<lparr>incoming = [], written =
          [(\<lparr>rpc_res_ServiceMethod = ''some error'', rpc_res_Seq = 1, rpc_res_Error = []\<rparr>,
            ''the value we don't want to see'')]\<rparr>)"
  by (simp add: WriteResponse_def convertToRPCResponse_def wire_msgpack_def wire_codec_def)

text \<open>For every header, the error text ends up in the wrong field.\<close>

lemma convertToRPCResponse_Error:
  "rpc_res_Error (convertToRPCResponse r) = []
   \<and> rpc_res_ServiceMethod (convertToRPCResponse r) = res_Error r"
  by (simp add: convertToRPCResponse_def)

text \<open>
  C2. When the wrapped codec decodes a header (its header read returns no error),
  \<^verbatim>\<open>ReadRequestHeader\<close> returns no error and the caller's request holds the decoded
  service method and sequence number; nothing else of it changes.
\<close>

theorem ReadRequestHeader_copies_header:
  assumes "rpc_ReadRequestHeader (codec c) rpc_Request_zero s = (None, h, s')"
  shows "ReadRequestHeader c r s =
           (None, r\<lparr>req_ServiceMethod := rpc_req_ServiceMethod h, req_Seq := rpc_req_Seq h\<rparr>, s')"
  using assms by (simp add: ReadRequestHeader_def convertFromRPCRequest_def)

theorem ReadRequestHeader_copies_header_witness:
  "rpc_ReadRequestHeader (codec wire_msgpack) rpc_Request_zero
      \<lparr>incoming = [(None, \<lparr>rpc_req_ServiceMethod = ''Arith.Add'', rpc_req_Seq = 7\<rparr>)],
       written = ([] :: (rpc_Response \<times> string) list)\<rparr>
     = (None, \<lparr>rpc_req_ServiceMethod = ''Arith.Add'', rpc_req_Seq = 7\<rparr>,
        \<lparr>incoming = [], written = []\<rparr>)
   \<and> ReadRequestHeader (wire_msgpack :: (string wire, unit, string) msgpackServerCodec)
        \<lparr>req_ServiceMethod = ''Stale.Method'', req_Seq = 99\<rparr>
        \<lparr>incoming = [(None, \<lparr>rpc_req_ServiceMethod = ''Arith.Add'', rpc_req_Seq = 7\<rparr>)],
         written = []\<rparr>
     = (None, \<lparr>req_ServiceMethod = ''Arith.Add'', req_Seq = 7\<rparr>,
        \<lparr>incoming = [], written = []\<rparr>)"
proof -
  have h: "rpc_ReadRequestHeader (codec (wire_msgpack :: (string wire, unit, string) msgpackServerCodec))
      rpc_Request_zero
      \<lparr>incoming = [(None, \<lparr>rpc_req_ServiceMethod = ''Arith.Add'', rpc_req_Seq = 7\<rparr>)],
       written = []\<rparr>
     = (None, \<lparr>rpc_req_ServiceMethod = ''Arith.Add'', rpc_req_Seq = 7\<rparr>,
        \<lparr>incoming = [], written = []\<rparr>)"
    by (simp add: wire_msgpack_def wire_codec_def)
  from ReadRequestHeader_copies_header [OF h,
      of "\<lparr>req_ServiceMethod = ''Stale.Method'', req_Seq = 99\<rparr>"] h
  show ?thesis by (simp add: wire_msgpack_def wire_codec_def)
qed

text \<open>
  C9. When the wrapped codec's header read fails, \<^verbatim>\<open>ReadRequestHeader\<close> returns that
  error and the caller's request is as it was, whatever the failed read left in the
  header it was decoding into.
\<close>

theorem ReadRequestHeader_error_keeps_Request:
  assumes "rpc_ReadRequestHeader (codec c) rpc_Request_zero s = (Some e, h, s')"
  shows "ReadRequestHeader c r s = (Some e, r, s')"
  using assms by (simp add: ReadRequestHeader_def)

theorem ReadRequestHeader_error_keeps_Request_witness:
  "rpc_ReadRequestHeader (codec (wire_msgpack :: (string wire, unit, string) msgpackServerCodec))
      rpc_Request_zero
      \<lparr>incoming = [(Some ''unexpected EOF'', \<lparr>rpc_req_ServiceMethod = ''Arith.'', rpc_req_Seq = 3\<rparr>)],
       written = []\<rparr>
     = (Some ''unexpected EOF'', \<lparr>rpc_req_ServiceMethod = ''Arith.'', rpc_req_Seq = 3\<rparr>,
        \<lparr>incoming = [], written = []\<rparr>)
   \<and> ReadRequestHeader (wire_msgpack :: (string wire, unit, string) msgpackServerCodec)
        \<lparr>req_ServiceMethod = ''Stale.Method'', req_Seq = 99\<rparr>
        \<lparr>incoming = [(Some ''unexpected EOF'', \<lparr>rpc_req_ServiceMethod = ''Arith.'', rpc_req_Seq = 3\<rparr>)],
         written = []\<rparr>
     = (Some ''unexpected EOF'', \<lparr>req_ServiceMethod = ''Stale.Method'', req_Seq = 99\<rparr>,
        \<lparr>incoming = [], written = []\<rparr>)"
proof -
  have h: "rpc_ReadRequestHeader (codec (wire_msgpack :: (string wire, unit, string) msgpackServerCodec))
      rpc_Request_zero
      \<lparr>incoming = [(Some ''unexpected EOF'', \<lparr>rpc_req_ServiceMethod = ''Arith.'', rpc_req_Seq = 3\<rparr>)],
       written = []\<rparr>
     = (Some ''unexpected EOF'', \<lparr>rpc_req_ServiceMethod = ''Arith.'', rpc_req_Seq = 3\<rparr>,
        \<lparr>incoming = [], written = []\<rparr>)"
    by (simp add: wire_msgpack_def wire_codec_def)
  from ReadRequestHeader_error_keeps_Request [OF h,
      of "\<lparr>req_ServiceMethod = ''Stale.Method'', req_Seq = 99\<rparr>"] h
  show ?thesis by simp
qed

section \<open>Properties of the handlers\<close>

subsection \<open>Go's quotient\<close>

text \<open>
  \<open>go_quo\<close> is the truncated quotient of the signed values, except for the one
  quotient that does not fit, which wraps.
\<close>

lemma abs_sdiv_le: "\<bar>(a::int) sdiv b\<bar> \<le> \<bar>a\<bar>"
proof -
  have nn: "0 \<le> \<bar>a\<bar> div \<bar>b\<bar>"
    by (simp add: div_int_pos_iff)
  have "\<bar>a sdiv b\<bar> = \<bar>sgn a\<bar> * \<bar>sgn b\<bar> * (\<bar>a\<bar> div \<bar>b\<bar>)"
    using nn by (simp add: signed_divide_int_def abs_mult)
  also have "\<dots> \<le> \<bar>a\<bar> div \<bar>b\<bar>"
    using nn by (cases "a = 0"; cases "b = 0") (simp_all add: abs_sgn_eq)
  also have "\<dots> \<le> \<bar>a\<bar>"
  proof (cases "b = 0")
    case True
    then show ?thesis by simp
  next
    case False
    then have "1 \<le> \<bar>b\<bar>" by linarith
    with zdiv_mono2 [of "\<bar>a\<bar>" 1 "\<bar>b\<bar>"] show ?thesis by simp
  qed
  finally show ?thesis .
qed

lemma sdiv_in_range:
  fixes a b :: int
  assumes a: "- (2 ^ 63) \<le> a" "a < 2 ^ 63" and nov: "\<not> (a = - (2 ^ 63) \<and> b = - 1)"
  shows "- (2 ^ 63) \<le> a sdiv b \<and> a sdiv b < 2 ^ 63"
proof
  have "\<bar>a sdiv b\<bar> \<le> \<bar>a\<bar>" by (rule abs_sdiv_le)
  with a show "- (2 ^ 63) \<le> a sdiv b" by linarith
next
  show "a sdiv b < 2 ^ 63"
  proof (cases "a = - (2 ^ 63)")
    case False
    have "\<bar>a sdiv b\<bar> \<le> \<bar>a\<bar>" by (rule abs_sdiv_le)
    with a False show ?thesis by linarith
  next
    case True
    with nov have b1: "b \<noteq> - 1" by simp
    show ?thesis
    proof (cases "b < 0")
      case False
      have nn: "0 \<le> \<bar>a\<bar> div \<bar>b\<bar>" by (simp add: div_int_pos_iff)
      have "a sdiv b \<le> 0"
      proof (cases "b = 0")
        case True then show ?thesis by (simp add: signed_divide_int_def)
      next
        case nz: False
        with False have "0 < b" by simp
        then have "a sdiv b = - (\<bar>a\<bar> div \<bar>b\<bar>)"
          using True by (simp add: signed_divide_int_def)
        with nn show ?thesis by simp
      qed
      then show ?thesis by (rule le_less_trans) simp
    next
      case bneg: True
      with b1 have "1 < \<bar>b\<bar>" by linarith
      moreover have "0 < \<bar>a\<bar>" using True by simp
      ultimately have "\<bar>a\<bar> div \<bar>b\<bar> < \<bar>a\<bar>" by (rule int_div_less_self[rotated])
      moreover have "a sdiv b = \<bar>a\<bar> div \<bar>b\<bar>"
        using True bneg by (simp add: signed_divide_int_def)
      ultimately show ?thesis using True by simp
    qed
  qed
qed

lemma sint_go_quo:
  assumes "\<not> (x = - (2 ^ 63) \<and> y = - 1)"
  shows "sint (go_quo x y) = sint x sdiv sint y"
proof -
  have r: "- (2 ^ 63) \<le> sint x" "sint x < 2 ^ 63"
    using sint_ge [of x] sint_lt [of x] by simp_all
  have "\<not> (sint x = - (2 ^ 63) \<and> sint y = - 1)"
  proof
    assume h: "sint x = - (2 ^ 63) \<and> sint y = - 1"
    then have "sint x = sint (- (2 ^ 63) :: go_int)" "sint y = sint (- 1 :: go_int)"
      by simp_all
    then have "x = - (2 ^ 63) \<and> y = - 1"
      by (auto intro: signed_word_eqI)
    with assms show False by simp
  qed
  from sdiv_in_range [OF r this]
  have "signed_take_bit 63 (sint x sdiv sint y) = sint x sdiv sint y"
    by (simp add: signed_take_bit_int_eq_self)
  then show ?thesis
    by (simp add: go_quo_def sint_sbintrunc')
qed

lemma go_quo_overflow: "go_quo (- (2 ^ 63)) (- 1) = - (2 ^ 63)"
  by (simp add: go_quo_def signed_divide_int_def)

lemma go_quo_ex: "go_quo (- 7) 2 = - 3" "go_quo 7 2 = 3" "go_quo 7 (- 2) = - 3"
  by (simp_all add: go_quo_def signed_divide_int_def)

subsection \<open>The handlers\<close>

text \<open>
  C4. For every argument, \<^verbatim>\<open>Arith.Add\<close> returns no error and stores \<open>A + B\<close> in the
  reply, and \<^verbatim>\<open>Arith.Mul\<close> returns no error and stores \<open>A * B\<close>, in Go's \<^verbatim>\<open>int\<close>
  arithmetic: the sum and the product of the signed values, in two's complement. On 7
  and 8 the replies are 15 and 56, and running the two handlers on their own reply
  slots gives the same pair of replies in either order.
\<close>

theorem Arith_Add_Mul_correct:
  "Arith_Add args reply = (None, reply\<lparr>C := A args + B args\<rparr>)
   \<and> Arith_Mul args reply = (None, reply\<lparr>C := A args * B args\<rparr>)
   \<and> sint (C (snd (Arith_Add args reply))) = signed_take_bit 63 (sint (A args) + sint (B args))
   \<and> sint (C (snd (Arith_Mul args reply))) = signed_take_bit 63 (sint (A args) * sint (B args))
   \<and> Arith_Add \<lparr>A = 7, B = 8\<rparr> \<lparr>C = 0\<rparr> = (None, \<lparr>C = 15\<rparr>)
   \<and> Arith_Mul \<lparr>A = 7, B = 8\<rparr> \<lparr>C = 0\<rparr> = (None, \<lparr>C = 56\<rparr>)
   \<and> (let m = Arith_Mul args mulReply; a = Arith_Add args addReply in (a, m))
       = (let a = Arith_Add args addReply; m = Arith_Mul args mulReply in (a, m))"
  by (simp add: Arith_Add_def Arith_Mul_def sint_word_ariths)

text \<open>
  C10. \<^verbatim>\<open>BuiltinTypes.Slice\<close> appends: whatever the reply slice holds before the
  call, it holds the same elements followed by \<open>i\<close> afterwards, and no error is
  returned.
\<close>

theorem BuiltinTypes_Slice_appends:
  "BuiltinTypes_Slice i l = (None, l @ [i])
   \<and> take (length l) (snd (BuiltinTypes_Slice i l)) = l
   \<and> length (snd (BuiltinTypes_Slice i l)) = Suc (length l)"
  by (simp add: BuiltinTypes_Slice_def)

text \<open>
  C5. \<^verbatim>\<open>Arith.Div\<close> returns an error exactly when \<open>B\<close> is 0. With \<open>B = 0\<close> the error
  is ``divide by zero'' and the reply slot is left as it was, so a zero reply stays
  zero (as for 7 and 0). With \<open>B \<noteq> 0\<close> no error is returned and the reply holds Go's
  quotient, which is the quotient of the signed values truncated towards zero
  whenever that fits (all but the most negative value divided by \<open>-1\<close>).
\<close>

theorem Arith_Div_correct:
  "(B args = 0 \<longrightarrow> Arith_Div args reply = (Some ''divide by zero'', reply))
   \<and> (B args \<noteq> 0 \<longrightarrow> Arith_Div args reply = (None, reply\<lparr>C := go_quo (A args) (B args)\<rparr>))
   \<and> (B args \<noteq> 0 \<and> \<not> (A args = - (2 ^ 63) \<and> B args = - 1) \<longrightarrow>
        sint (C (snd (Arith_Div args reply))) = sint (A args) sdiv sint (B args))
   \<and> (fst (Arith_Div args reply) \<noteq> None \<longleftrightarrow> B args = 0)
   \<and> Arith_Div \<lparr>A = 7, B = 0\<rparr> \<lparr>C = 0\<rparr> = (Some ''divide by zero'', \<lparr>C = 0\<rparr>)"
  by (simp add: Arith_Div_def sint_go_quo)

theorem Arith_Div_correct_witness:
  "Arith_Div \<lparr>A = 7, B = 0\<rparr> \<lparr>C = 0\<rparr> = (Some ''divide by zero'', \<lparr>C = 0\<rparr>)
   \<and> Arith_Div \<lparr>A = - 7, B = 2\<rparr> \<lparr>C = 0\<rparr> = (None, \<lparr>C = - 3\<rparr>)
   \<and> sint (C (snd (Arith_Div \<lparr>A = - 7, B = 2\<rparr> \<lparr>C = 0\<rparr>))) = - 3"
  using Arith_Div_correct [of "\<lparr>A = 7, B = 0\<rparr>" "\<lparr>C = 0\<rparr>"]
    Arith_Div_correct [of "\<lparr>A = - 7, B = 2\<rparr>" "\<lparr>C = 0\<rparr>"]
  by (simp add: go_quo_def signed_divide_int_def)

subsection \<open>Registration\<close>






section \<open>Properties of the dispatcher\<close>

subsection \<open>Turns, completions and the loop\<close>

lemma turn_failure:
  "parse_failure c reg (conn sv) = Some s' \<Longrightarrow>
   turn c reg sv = (False, \<lparr>conn = s', inflight = inflight sv\<rparr>)"
  by (auto simp: parse_failure_def turn_def read_request_def
      split: prod.splits sum.splits option.splits body_read.splits)

lemma turn_no_failure:
  "parse_failure c reg (conn sv) = None \<Longrightarrow> fst (turn c reg sv)"
  by (auto simp: parse_failure_def turn_def read_request_def
      split: prod.splits sum.splits option.splits body_read.splits)

lemma serve_loop_stop:
  "turn c reg sv = (False, sv') \<Longrightarrow> serve_loop c reg sched sv = Some sv'"
  by (subst serve_loop.simps) simp

lemma serve_loop_continue:
  "turn c reg sv = (True, sv') \<Longrightarrow>
   serve_loop c reg sched sv = serve_loop c reg (\<lambda>i. sched (Suc i)) (completes c (sched 0) sv')"
  by (subst serve_loop.simps) simp

lemma serve_loop_after_turns:
  "\<forall>k<n. parse_failure c reg (conn (after_turns c reg sched k sv)) = None \<Longrightarrow>
   serve_loop c reg sched sv =
     serve_loop c reg (\<lambda>i. sched (n + i)) (after_turns c reg sched n sv)"
proof (induction n arbitrary: sched sv)
  case 0
  then show ?case by simp
next
  case (Suc n)
  let ?sv' = "completes c (sched 0) (snd (turn c reg sv))"
  from Suc.prems have "parse_failure c reg (conn (after_turns c reg sched 0 sv)) = None" by blast
  then have "fst (turn c reg sv)" by (simp add: turn_no_failure)
  then have step: "serve_loop c reg sched sv = serve_loop c reg (\<lambda>i. sched (Suc i)) ?sv'"
    by (cases "turn c reg sv") (simp add: serve_loop_continue)
  have "\<forall>k<n. parse_failure c reg (conn (after_turns c reg (\<lambda>i. sched (Suc i)) k ?sv')) = None"
  proof (intro allI impI)
    fix k assume "k < n"
    then have "Suc k < Suc n" by simp
    with Suc.prems have "parse_failure c reg (conn (after_turns c reg sched (Suc k) sv)) = None"
      by blast
    then show "parse_failure c reg (conn (after_turns c reg (\<lambda>i. sched (Suc i)) k ?sv')) = None"
      by simp
  qed
  from Suc.IH [OF this] step show ?case by simp
qed



text \<open>
  A request that fails to parse, at whatever turn and under whatever schedule, makes
  the loop return.
\<close>

lemma serve_loop_returns:
  assumes "parse_failure c reg (conn (after_turns c reg sched n sv)) \<noteq> None"
  shows "\<exists>sv'. serve_loop c reg sched sv = Some sv'"
proof -
  define m where "m = (LEAST k. parse_failure c reg (conn (after_turns c reg sched k sv)) \<noteq> None)"
  have fails: "parse_failure c reg (conn (after_turns c reg sched m sv)) \<noteq> None"
    unfolding m_def using assms by (rule LeastI)
  have "\<forall>k<m. parse_failure c reg (conn (after_turns c reg sched k sv)) = None"
    unfolding m_def using not_less_Least by blast
  then have "serve_loop c reg sched sv =
      serve_loop c reg (\<lambda>i. sched (m + i)) (after_turns c reg sched m sv)"
    by (rule serve_loop_after_turns)
  moreover from fails obtain s' where
    "parse_failure c reg (conn (after_turns c reg sched m sv)) = Some s'"
    by blast
  then have "serve_loop c reg (\<lambda>i. sched (m + i)) (after_turns c reg sched m sv) =
      Some \<lparr>conn = s', inflight = inflight (after_turns c reg sched m sv)\<rparr>"
    by (intro serve_loop_stop turn_failure)
  ultimately show ?thesis by simp
qed

lemma Arith_service_simps:
  "Arith_service ''Arith.Add'' = Some (\<lambda>args. Returned (Arith_Add args \<lparr>C = 0\<rparr>))"
  "Arith_service ''Arith.Mul'' = Some (\<lambda>args. Returned (Arith_Mul args \<lparr>C = 0\<rparr>))"
  "Arith_service ''Arith.Div'' = Some (\<lambda>args. Returned (Arith_Div args \<lparr>C = 0\<rparr>))"
  "Arith_service ''Arith.Error'' = Some (\<lambda>args. Arith_Error args \<lparr>C = 0\<rparr>)"
  by (simp_all add: Arith_service_def)

lemma schedule_shifts:
  "(\<lambda>i. each_in_turn (Suc i)) = each_in_turn"
  "(\<lambda>i. none_completes (Suc i)) = none_completes"
  by (simp_all add: each_in_turn_def none_completes_def fun_eq_iff)

lemma schedule_heads:
  "each_in_turn 0 = [0]"
  "none_completes 0 = []"
  by (simp_all add: each_in_turn_def none_completes_def)

subsection \<open>Malformed input and panicking handlers\<close>




text \<open>
  C8. When the handler of a request panics, the invocation yields an error response
  with the request's sequence number, the panic's description as error text and no
  body. The turn puts it in flight and keeps the loop going; when it completes, that
  response is written, without a body; and the loop carries on, under every schedule.
  In the schedule in which each invocation completes before the next header is read,
  the turn and the completion leave the connection as that write left it, and the
  loop carries on from there.
\<close>

theorem serve_loop_survives_panic:
  assumes "readRequestHeader c (conn sv) = (Inr req, s1)"
    and "reg (req_ServiceMethod req) = Some h"
    and "readRequestBody c s1 = (Decoded argv, s2)"
    and "h argv = Panicked d"
  shows "invoke h (req_Seq req) argv = (\<lparr>res_Seq = req_Seq req, res_Error = d\<rparr>, None)
    \<and> turn c reg sv =
        (True, \<lparr>conn = s2,
                inflight = inflight sv @ [(\<lparr>res_Seq = req_Seq req, res_Error = d\<rparr>, None)]\<rparr>)
    \<and> complete c (length (inflight sv))
         \<lparr>conn = s2, inflight = inflight sv @ [(\<lparr>res_Seq = req_Seq req, res_Error = d\<rparr>, None)]\<rparr>
       = \<lparr>conn = snd (writeResponse c \<lparr>res_Seq = req_Seq req, res_Error = d\<rparr> None s2),
          inflight = inflight sv\<rparr>
    \<and> serve_loop c reg sched sv =
        serve_loop c reg (\<lambda>i. sched (Suc i))
          (completes c (sched 0)
             \<lparr>conn = s2,
              inflight = inflight sv @ [(\<lparr>res_Seq = req_Seq req, res_Error = d\<rparr>, None)]\<rparr>)
    \<and> completes c (each_in_turn 0) (snd (turn c reg \<lparr>conn = conn sv, inflight = []\<rparr>))
       = \<lparr>conn = snd (writeResponse c \<lparr>res_Seq = req_Seq req, res_Error = d\<rparr> None s2),
          inflight = []\<rparr>
    \<and> serve_loop c reg each_in_turn \<lparr>conn = conn sv, inflight = []\<rparr> =
        serve_loop c reg each_in_turn
          \<lparr>conn = snd (writeResponse c \<lparr>res_Seq = req_Seq req, res_Error = d\<rparr> None s2),
           inflight = []\<rparr>"
proof -
  let ?res = "(\<lparr>res_Seq = req_Seq req, res_Error = d\<rparr>, None :: 'c option)"
  have i: "invoke h (req_Seq req) argv = ?res"
    using assms(4) by (simp add: invoke_def)
  have t: "turn c reg sv' = (True, \<lparr>conn = s2, inflight = inflight sv' @ [?res]\<rparr>)"
    if "conn sv' = conn sv" for sv' :: "('a, 'c) server"
    using assms(1-3) i that by (simp add: turn_def read_request_def)
  have w: "complete c (length fl) \<lparr>conn = s2, inflight = fl @ [?res]\<rparr>
      = \<lparr>conn = snd (writeResponse c \<lparr>res_Seq = req_Seq req, res_Error = d\<rparr> None s2),
         inflight = fl\<rparr>" for fl
    by (simp add: complete_def)
  have l: "serve_loop c reg sched' sv' =
      serve_loop c reg (\<lambda>i. sched' (Suc i))
        (completes c (sched' 0) \<lparr>conn = s2, inflight = inflight sv' @ [?res]\<rparr>)"
    if "conn sv' = conn sv" for sv' :: "('a, 'c) server" and sched'
    using t [OF that] by (rule serve_loop_continue)
  have s: "completes c (each_in_turn 0) \<lparr>conn = s2, inflight = [?res]\<rparr>
      = \<lparr>conn = snd (writeResponse c \<lparr>res_Seq = req_Seq req, res_Error = d\<rparr> None s2),
         inflight = []\<rparr>"
    using w [of "[]"] by (simp add: each_in_turn_def)
  show ?thesis
    using i t [of sv] w [of "inflight sv"] l [of sv sched]
      t [of "\<lparr>conn = conn sv, inflight = []\<rparr>"]
      l [of "\<lparr>conn = conn sv, inflight = []\<rparr>" each_in_turn] s
    by (simp add: schedule_shifts)
qed

theorem serve_loop_survives_panic_witness:
  "invoke (\<lambda>args. Arith_Error args \<lparr>C = 0\<rparr>) 1 \<lparr>A = 7, B = 8\<rparr>
     = (\<lparr>res_Seq = 1, res_Error = ''ERROR''\<rparr>, None)
   \<and> serve_loop pipe_codec Arith_service each_in_turn
       \<lparr>conn =
          \<lparr>inbox = [Frame \<lparr>req_ServiceMethod = ''Arith.Error'', req_Seq = 1\<rparr> (Decoded \<lparr>A = 7, B = 8\<rparr>),
                    Frame \<lparr>req_ServiceMethod = ''Arith.Add'', req_Seq = 2\<rparr> (Decoded \<lparr>A = 7, B = 8\<rparr>)],
           pending = None, outbox = []\<rparr>,
        inflight = []\<rparr>
     = Some
        \<lparr>conn =
           \<lparr>inbox = [], pending = None,
            outbox = [(\<lparr>res_Seq = 1, res_Error = ''ERROR''\<rparr>, None),
                      (\<lparr>res_Seq = 2, res_Error = []\<rparr>, Some \<lparr>C = 15\<rparr>)]\<rparr>,
         inflight = []\<rparr>"
proof -
  let ?add = "Frame \<lparr>req_ServiceMethod = ''Arith.Add'', req_Seq = 2\<rparr> (Decoded \<lparr>A = 7, B = 8\<rparr>)"
  let ?s0 = "\<lparr>inbox = [Frame \<lparr>req_ServiceMethod = ''Arith.Error'', req_Seq = 1\<rparr>
                 (Decoded \<lparr>A = 7, B = 8\<rparr>), ?add],
             pending = None, outbox = ([] :: (birpc_Response \<times> Reply option) list)\<rparr>"
  let ?s1 = "\<lparr>inbox = [?add], pending = Some (Decoded \<lparr>A = 7, B = 8\<rparr>),
             outbox = ([] :: (birpc_Response \<times> Reply option) list)\<rparr>"
  let ?s2 = "\<lparr>inbox = [?add], pending = None,
             outbox = ([] :: (birpc_Response \<times> Reply option) list)\<rparr>"
  let ?s3 = "\<lparr>inbox = [?add], pending = None,
             outbox = [(\<lparr>res_Seq = 1, res_Error = ''ERROR''\<rparr>, None :: Reply option)]\<rparr>"
  let ?s4 = "\<lparr>inbox = [], pending = None,
             outbox = [(\<lparr>res_Seq = 1, res_Error = ''ERROR''\<rparr>, None),
                       (\<lparr>res_Seq = 2, res_Error = []\<rparr>, Some \<lparr>C = 15\<rparr>)]\<rparr>"
  let ?sv0 = "\<lparr>conn = ?s0, inflight = ([] :: (birpc_Response \<times> Reply option) list)\<rparr>"
  let ?sv3 = "\<lparr>conn = ?s3, inflight = ([] :: (birpc_Response \<times> Reply option) list)\<rparr>"
  let ?sv4 = "\<lparr>conn = ?s4, inflight = ([] :: (birpc_Response \<times> Reply option) list)\<rparr>"
  have h1: "readRequestHeader pipe_codec (conn ?sv0)
      = (Inr \<lparr>req_ServiceMethod = ''Arith.Error'', req_Seq = 1\<rparr>, ?s1)"
    by (simp add: pipe_codec_def)
  have h2: "Arith_service (req_ServiceMethod \<lparr>req_ServiceMethod = ''Arith.Error'', req_Seq = 1\<rparr>)
      = Some (\<lambda>args. Arith_Error args \<lparr>C = 0\<rparr>)"
    by (simp add: Arith_service_simps)
  have h3: "readRequestBody pipe_codec ?s1 = (Decoded \<lparr>A = 7, B = 8\<rparr>, ?s2)"
    by (simp add: pipe_codec_def)
  have h4: "Arith_Error \<lparr>A = 7, B = 8\<rparr> \<lparr>C = 0\<rparr> = Panicked ''ERROR''"
    by (simp add: Arith_Error_def)
  have w: "snd (writeResponse pipe_codec \<lparr>res_Seq = 1, res_Error = ''ERROR''\<rparr> None ?s2) = ?s3"
    by (simp add: pipe_codec_def)
  note all = serve_loop_survives_panic [where c = pipe_codec and reg = Arith_service
      and sv = ?sv0 and ?s1.0 = ?s1 and ?s2.0 = ?s2 and sched = each_in_turn
      and req = "\<lparr>req_ServiceMethod = ''Arith.Error'', req_Seq = 1\<rparr>"
      and h = "\<lambda>args. Arith_Error args \<lparr>C = 0\<rparr>"
      and argv = "\<lparr>A = 7, B = 8\<rparr>" and d = "''ERROR''", OF h1 h2 h3 h4]
  from all have inv: "invoke (\<lambda>args. Arith_Error args \<lparr>C = 0\<rparr>) 1 \<lparr>A = 7, B = 8\<rparr>
      = (\<lparr>res_Seq = 1, res_Error = ''ERROR''\<rparr>, None)"
    by simp
  from all have "serve_loop pipe_codec Arith_service each_in_turn \<lparr>conn = conn ?sv0, inflight = []\<rparr>
      = serve_loop pipe_codec Arith_service each_in_turn
          \<lparr>conn = snd (writeResponse pipe_codec \<lparr>res_Seq = 1, res_Error = ''ERROR''\<rparr> None ?s2),
           inflight = []\<rparr>"
    by (elim conjE) simp
  then have panic: "serve_loop pipe_codec Arith_service each_in_turn ?sv0
      = serve_loop pipe_codec Arith_service each_in_turn ?sv3"
    unfolding w by simp
  have "turn pipe_codec Arith_service ?sv3
      = (True, \<lparr>conn = \<lparr>inbox = [], pending = None,
                         outbox = [(\<lparr>res_Seq = 1, res_Error = ''ERROR''\<rparr>, None)]\<rparr>,
                inflight = [(\<lparr>res_Seq = 2, res_Error = []\<rparr>, Some \<lparr>C = 15\<rparr>)]\<rparr>)"
    by (simp add: turn_def read_request_def invoke_def pipe_codec_def
        Arith_service_simps Arith_Add_def)
  then have "serve_loop pipe_codec Arith_service each_in_turn ?sv3
      = serve_loop pipe_codec Arith_service each_in_turn ?sv4"
    by (simp add: serve_loop_continue schedule_shifts schedule_heads complete_def pipe_codec_def)
  moreover have "turn pipe_codec Arith_service ?sv4 = (False, ?sv4)"
    by (simp add: turn_def read_request_def pipe_codec_def)
  then have "serve_loop pipe_codec Arith_service each_in_turn ?sv4 = Some ?sv4"
    by (rule serve_loop_stop)
  ultimately show ?thesis using panic inv by simp
qed

end
